theory Spec2Isabelle
  imports Main "HOL-Library.Finite_Map" "HOL-Library.Char_ord" "HOL-Library.List_Lexorder"
begin

section \<open>Values of the plugin framework\<close>

text \<open>
  The provider is written against the Terraform plugin framework. Every attribute value
  of the framework is in one of three states: null, unknown or known. The accessors
  \<open>ValueString\<close> and \<open>ValueBool\<close> return the Go zero value (the empty string,
  \<open>false\<close>) for a value that is null or unknown; the zero value of the Go types
  themselves is the null state.
\<close>

datatype tfstring = StringNull | StringUnknown | StringValue string

datatype tfbool = BoolNull | BoolUnknown | BoolValue bool

datatype tfint64 = Int64Null | Int64Unknown | Int64Value int

fun String_IsNull :: "tfstring \<Rightarrow> bool" where
  "String_IsNull StringNull = True"
| "String_IsNull StringUnknown = False"
| "String_IsNull (StringValue _) = False"


fun ValueString :: "tfstring \<Rightarrow> string" where
  "ValueString StringNull = []"
| "ValueString StringUnknown = []"
| "ValueString (StringValue s) = s"

fun Bool_IsNull :: "tfbool \<Rightarrow> bool" where
  "Bool_IsNull BoolNull = True"
| "Bool_IsNull BoolUnknown = False"
| "Bool_IsNull (BoolValue _) = False"

fun Bool_IsUnknown :: "tfbool \<Rightarrow> bool" where
  "Bool_IsUnknown BoolNull = False"
| "Bool_IsUnknown BoolUnknown = True"
| "Bool_IsUnknown (BoolValue _) = False"

fun ValueBool :: "tfbool \<Rightarrow> bool" where
  "ValueBool BoolNull = False"
| "ValueBool BoolUnknown = False"
| "ValueBool (BoolValue b) = b"

text \<open>
  Attribute types and the values of lists and objects. A Go map
  \<open>map[string]attr.Type\<close> or \<open>map[string]attr.Value\<close> is a finite map. A list or an
  object carries its element or attribute types in each of its three states, as
  \<open>types.ObjectNull(attributeTypes)\<close> does.
\<close>

datatype attr_type =
    BoolType
  | Int64Type
  | StringType
  | ListType attr_type
  | ObjectType "(string, attr_type) fmap"

datatype attr_value =
    BoolV tfbool
  | Int64V tfint64
  | StringV tfstring
  | ListV tflist
  | ObjectV tfobject
and tflist =
    ListNull attr_type
  | ListUnknown attr_type
  | ListKnown attr_type "attr_value list"
and tfobject =
    ObjectNull "(string, attr_type) fmap"
  | ObjectUnknown "(string, attr_type) fmap"
  | ObjectKnown "(string, attr_type) fmap" "(string, attr_value) fmap"

fun Object_IsNull :: "tfobject \<Rightarrow> bool" where
  "Object_IsNull (ObjectNull _) = True"
| "Object_IsNull (ObjectUnknown _) = False"
| "Object_IsNull (ObjectKnown _ _) = False"

fun Object_IsUnknown :: "tfobject \<Rightarrow> bool" where
  "Object_IsUnknown (ObjectNull _) = False"
| "Object_IsUnknown (ObjectUnknown _) = True"
| "Object_IsUnknown (ObjectKnown _ _) = False"

fun List_Type :: "tflist \<Rightarrow> attr_type" where
  "List_Type (ListNull t) = ListType t"
| "List_Type (ListUnknown t) = ListType t"
| "List_Type (ListKnown t _) = ListType t"

fun Object_Type :: "tfobject \<Rightarrow> attr_type" where
  "Object_Type (ObjectNull ts) = ObjectType ts"
| "Object_Type (ObjectUnknown ts) = ObjectType ts"
| "Object_Type (ObjectKnown ts _) = ObjectType ts"

fun Type :: "attr_value \<Rightarrow> attr_type" where
  "Type (BoolV _) = BoolType"
| "Type (Int64V _) = Int64Type"
| "Type (StringV _) = StringType"
| "Type (ListV l) = List_Type l"
| "Type (ObjectV obj) = Object_Type obj"

section \<open>Diagnostics\<close>

text \<open>
  A diagnostic is an error or a warning, with or without an attribute path.
  \<open>Diagnostics.Append\<close> of the framework skips a diagnostic that the collection
  already contains; \<open>AddError\<close> and \<open>AddAttributeError\<close> append one error.
\<close>

datatype path = Root string | AtName path string

datatype diagnostic =
    ErrorDiagnostic string string
  | WarningDiagnostic string string
  | AttributeErrorDiagnostic path string string
  | AttributeWarningDiagnostic path string string

fun is_error :: "diagnostic \<Rightarrow> bool" where
  "is_error (ErrorDiagnostic _ _) = True"
| "is_error (WarningDiagnostic _ _) = False"
| "is_error (AttributeErrorDiagnostic _ _ _) = True"
| "is_error (AttributeWarningDiagnostic _ _ _) = False"

definition HasError :: "diagnostic list \<Rightarrow> bool" where
  "HasError diags = list_ex is_error diags"

fun Append :: "diagnostic list \<Rightarrow> diagnostic list \<Rightarrow> diagnostic list" where
  "Append diags [] = diags"
| "Append diags (d # ds) = Append (if d \<in> set diags then diags else diags @ [d]) ds"

definition AddError :: "diagnostic list \<Rightarrow> string \<Rightarrow> string \<Rightarrow> diagnostic list" where
  "AddError diags summary detail = Append diags [ErrorDiagnostic summary detail]"

definition AddAttributeError ::
    "diagnostic list \<Rightarrow> path \<Rightarrow> string \<Rightarrow> string \<Rightarrow> diagnostic list" where
  "AddAttributeError diags p summary detail =
     Append diags [AttributeErrorDiagnostic p summary detail]"

section \<open>Constructors of the framework used by the plan modifier\<close>

text \<open>
  \<open>types.ListValueFrom(ctx, types.StringType, elements)\<close> at a Go \<open>[]string\<close>: every Go
  string converts to a known string value, so the list is known and there is no
  diagnostic.
\<close>

definition ListValueFrom_StringType :: "string list \<Rightarrow> tflist \<times> diagnostic list" where
  "ListValueFrom_StringType elements =
     (ListKnown StringType (map (\<lambda>s. StringV (StringValue s)) elements), [])"

text \<open>
  \<open>types.ObjectValue(attributeTypes, attributes)\<close> checks the attributes against the
  declared types: one error for each declared attribute that is missing or has
  another type, one for each attribute that is not declared. With an error the result
  is the unknown object. Go leaves the iteration order of a map open; the model
  visits the names in increasing order. The texts of the library's diagnostics are
  shortened.
\<close>

definition ObjectValue_diags ::
    "(string, attr_type) fmap \<Rightarrow> (string, attr_value) fmap \<Rightarrow> diagnostic list" where
  "ObjectValue_diags attributeTypes attributes =
     concat (map (\<lambda>name.
        case fmlookup attributes name of
          None \<Rightarrow> [ErrorDiagnostic ''Missing Object Attribute Value'' name]
        | Some attribute \<Rightarrow>
            if fmlookup attributeTypes name = Some (Type attribute) then []
            else [ErrorDiagnostic ''Invalid Object Attribute Type'' name])
       (sorted_list_of_fset (fmdom attributeTypes)))
     @ concat (map (\<lambda>name.
        if name |\<in>| fmdom attributeTypes then []
        else [ErrorDiagnostic ''Extra Object Attribute Value'' name])
       (sorted_list_of_fset (fmdom attributes)))"

definition ObjectValue ::
    "(string, attr_type) fmap \<Rightarrow> (string, attr_value) fmap \<Rightarrow> tfobject \<times> diagnostic list" where
  "ObjectValue attributeTypes attributes =
     (let diags = ObjectValue_diags attributeTypes attributes
      in if HasError diags then (ObjectUnknown attributeTypes, diags)
         else (ObjectKnown attributeTypes attributes, []))"

section \<open>The model struct and the store client\<close>

text \<open>
  Modelled from the spec: the struct \<open>models.Model\<close>, declared in the client package
  \<open>internal/provider/client/models\<close>, which is not among the sources. The resource
  shape of the specification has the identity \<open>id\<close> and the attributes \<open>user_id\<close>,
  \<open>base_model_id\<close>, \<open>name\<close>, \<open>params\<close>, \<open>meta\<close>, \<open>access_control\<close>,
  \<open>is_active\<close>, \<open>is_private\<close>, \<open>created_at\<close> and \<open>updated_at\<close>. The resource
  code reads and writes the field \<open>ID\<close> only; the other attributes are kept as a
  finite map from the name of the attribute to its value and travel with the struct
  unchanged (an attribute of a floating-point type has no value in this map). A
  \<open>*models.Model\<close> is an option, \<open>None\<close> for the nil pointer.
\<close>

record Model =
  ID :: tfstring
  Fields :: "(string, attr_value) fmap"

text \<open>
  The client of the remote store, \<open>models.Client\<close>, is declared in the same package
  and is not among the sources either; \<open>client.go\<close> shows the signatures of its
  operations. An operation returns a pointer and an error, as in Go; the error is the
  text of \<open>err.Error()\<close>, \<open>None\<close> for the nil error. What the store answers is
  not decided by the provider, so the client is a parameter: a record of the answers
  of the four operations.
\<close>

type_synonym error = string

record Client =
  CreateModel :: "Model \<Rightarrow> Model option \<times> error option"
  GetModel :: "string \<Rightarrow> Model option \<times> error option"
  UpdateModel :: "string \<Rightarrow> Model \<Rightarrow> Model option \<times> error option"
  DeleteModel :: "string \<Rightarrow> error option"

text \<open>
  Every entry point of the provider returns, next to its response, the calls it has
  dispatched to the store, in order. An entry point that dereferences a nil pointer
  panics.
\<close>

datatype call =
    CreateModelCall Model
  | GetModelCall string
  | UpdateModelCall string Model
  | DeleteModelCall string

datatype 'r outcome = Returns 'r | Panics

section \<open>Requests and responses of the framework\<close>

text \<open>
  \<open>req.Plan.Get(ctx, &plan)\<close> converts the data of the framework into the Go struct
  and returns the diagnostics of the conversion. The conversion is the framework's:
  the request carries its outcome, the struct and the diagnostics.
\<close>

record tfsdk_data =
  Raw :: Model
  GetDiags :: "diagnostic list"

definition Get :: "tfsdk_data \<Rightarrow> Model \<times> diagnostic list" where
  "Get d = (Raw d, GetDiags d)"

record Request =
  req_Config :: tfsdk_data
  req_Plan :: tfsdk_data
  req_State :: tfsdk_data

text \<open>
  The response holds the diagnostics and the state that the caller sees after the
  call; \<open>None\<close> is the null state. \<open>resp.State.Set(ctx, model)\<close> stores what the
  pointer holds, the null state for the nil pointer; the conversion of a struct whose
  fields are framework values yields no diagnostic.
\<close>

record Response =
  resp_Diagnostics :: "diagnostic list"
  resp_State :: "Model option"

definition State_Set :: "Response \<Rightarrow> Model option \<Rightarrow> Response \<times> diagnostic list" where
  "State_Set resp val = (resp\<lparr>resp_State := val\<rparr>, [])"

definition Diagnostics_Append :: "Response \<Rightarrow> diagnostic list \<Rightarrow> Response" where
  "Diagnostics_Append resp diags =
     resp\<lparr>resp_Diagnostics := Append (resp_Diagnostics resp) diags\<rparr>"

definition Diagnostics_AddError :: "Response \<Rightarrow> string \<Rightarrow> string \<Rightarrow> Response" where
  "Diagnostics_AddError resp summary detail =
     resp\<lparr>resp_Diagnostics := AddError (resp_Diagnostics resp) summary detail\<rparr>"

section \<open>The model resource\<close>



definition ModelResource_Update ::
    "Client \<Rightarrow> Request \<Rightarrow> Response \<Rightarrow> Response outcome \<times> call list" where
  "ModelResource_Update client req resp0 =
     (let (plan0, diags) = Get (req_Plan req);
          resp1 = Diagnostics_Append resp0 diags
      in if HasError (resp_Diagnostics resp1) then (Returns resp1, [])
         else
           let (state, diags) = Get (req_State req);
               resp = Diagnostics_Append resp1 diags
           in if HasError (resp_Diagnostics resp) then (Returns resp, [])
              else
                let plan = plan0\<lparr>ID := ID state\<rparr>;
                    (model, err) = UpdateModel client (ValueString (ID state)) plan;
                    calls = [UpdateModelCall (ValueString (ID state)) plan]
                in case err of
                     Some e \<Rightarrow>
                       (Returns (Diagnostics_AddError resp ''Error updating model'' e), calls)
                   | None \<Rightarrow>
                      (case model of
                         None \<Rightarrow> (Panics, calls)
                       | Some m \<Rightarrow>
                           let m' = (if String_IsNull (ID m) then m\<lparr>ID := ID state\<rparr> else m);
                               (resp', diags') = State_Set resp (Some m')
                           in (Returns (Diagnostics_Append resp' diags'), calls)))"

definition ModelResource_Delete ::
    "Client \<Rightarrow> Request \<Rightarrow> Response \<Rightarrow> Response outcome \<times> call list" where
  "ModelResource_Delete client req resp0 =
     (let (state, diags) = Get (req_State req);
          resp = Diagnostics_Append resp0 diags
      in if HasError (resp_Diagnostics resp) then (Returns resp, [])
         else
           let err = DeleteModel client (ValueString (ID state));
               calls = [DeleteModelCall (ValueString (ID state))]
           in case err of
                Some e \<Rightarrow> (Returns (Diagnostics_AddError resp ''Error deleting model'' e), calls)
              | None \<Rightarrow> (Returns resp, calls))"

section \<open>The model data source\<close>

text \<open>
  The data source sets the state from the pointer that the store returned and tests
  the pointer for nil afterwards.
\<close>

definition ModelDataSource_Read ::
    "Client \<Rightarrow> Request \<Rightarrow> Response \<Rightarrow> Response outcome \<times> call list" where
  "ModelDataSource_Read client req resp0 =
     (let (config, diags) = Get (req_Config req);
          resp = Diagnostics_Append resp0 diags
      in if HasError (resp_Diagnostics resp) then (Returns resp, [])
         else
           let (foundModel, err) = GetModel client (ValueString (ID config));
               calls = [GetModelCall (ValueString (ID config))]
           in case err of
                Some e \<Rightarrow> (Returns (Diagnostics_AddError resp ''Error reading model'' e), calls)
              | None \<Rightarrow>
                  let (resp', diags') = State_Set resp foundModel;
                      resp'' = Diagnostics_Append resp' diags'
                  in if foundModel = None
                     then (Returns (Diagnostics_AddError resp'' ''Error reading model''
                                      (''No model found with name: '' @ ValueString (ID config))),
                           calls)
                     else (Returns resp'', calls))"

section \<open>The plan modifier of \<open>access_control\<close>\<close>

text \<open>
  The modifier reads two attributes of the plan with \<open>req.Plan.GetAttribute\<close>, at
  \<open>path.Root("is_private")\<close> and \<open>path.Root("access_control")\<close>; the plan of the
  request is the record of these two. The request also carries the configured, the
  planned and the prior value of the attribute; the modifier reads none of them. It
  holds no client, and the list of store calls it returns is empty on every path.
\<close>

record Plan =
  is_private :: tfbool
  access_control :: tfobject

record ObjectRequest =
  oreq_Plan :: Plan
  oreq_ConfigValue :: tfobject
  oreq_PlanValue :: tfobject
  oreq_StateValue :: tfobject

record ObjectResponse =
  oresp_PlanValue :: tfobject
  oresp_Diagnostics :: "diagnostic list"

definition permissionTypes :: "(string, attr_type) fmap" where
  "permissionTypes =
     fmap_of_list [(''group_ids'', ListType StringType), (''user_ids'', ListType StringType)]"

definition attributeTypes :: "(string, attr_type) fmap" where
  "attributeTypes =
     fmap_of_list [(''read'', ObjectType permissionTypes), (''write'', ObjectType permissionTypes)]"

definition PlanModifyObject ::
    "ObjectRequest \<Rightarrow> ObjectResponse \<Rightarrow> ObjectResponse \<times> call list" where
  "PlanModifyObject req resp =
     (let isPrivate = is_private (oreq_Plan req);
          accessControl = access_control (oreq_Plan req)
      in if \<not> ValueBool isPrivate \<and> \<not> (Object_IsNull accessControl \<or> Object_IsUnknown accessControl)
         then
           (resp\<lparr>oresp_Diagnostics :=
              AddAttributeError
                (AddAttributeError (oresp_Diagnostics resp) (Root ''is_private'')
                   ''Invalid Value'' ''is_private must be true when access_control is specified.'')
                (Root ''access_control'')
                ''Invalid Value'' ''access_control cannot be specified when is_private is false.''\<rparr>,
            [])
         else
           let resp1 =
                 (if ValueBool isPrivate \<and> (Object_IsUnknown accessControl \<or> Object_IsNull accessControl)
                  then
                    let (emptyList, listDiags) = ListValueFrom_StringType [];
                        d1 = Append (oresp_Diagnostics resp) listDiags;
                        (readPermissions, readDiags) =
                           ObjectValue permissionTypes
                             (fmap_of_list [(''group_ids'', ListV emptyList), (''user_ids'', ListV emptyList)]);
                        d2 = Append d1 readDiags;
                        (writePermissions, writeDiags) =
                           ObjectValue permissionTypes
                             (fmap_of_list [(''group_ids'', ListV emptyList), (''user_ids'', ListV emptyList)]);
                        d3 = Append d2 writeDiags;
                        (defaultAccessControl, diags) =
                           ObjectValue attributeTypes
                             (fmap_of_list [(''read'', ObjectV readPermissions),
                                            (''write'', ObjectV writePermissions)]);
                        d4 = Append d3 diags
                    in resp\<lparr>oresp_PlanValue := defaultAccessControl, oresp_Diagnostics := d4\<rparr>
                  else resp)
           in if \<not> ValueBool isPrivate
              then (resp1\<lparr>oresp_PlanValue := ObjectNull attributeTypes\<rparr>, [])
              else (resp1, []))"

section \<open>The enumerations of the schemas\<close>







section \<open>Concrete stores, requests and responses\<close>

text \<open>
  A store that answers every create, get and update with a fixed reply each; a request
  whose plan, configuration and prior state convert without diagnostics; a response
  with no diagnostics yet. The theorems below are evaluated on these.
\<close>

definition store_replies ::
    "Model option \<times> error option \<Rightarrow> Model option \<times> error option
      \<Rightarrow> Model option \<times> error option \<Rightarrow> Client" where
  "store_replies create_reply get_reply update_reply =
     \<lparr>CreateModel = (\<lambda>_. create_reply),
      GetModel = (\<lambda>_. get_reply),
      UpdateModel = (\<lambda>_ _. update_reply),
      DeleteModel = (\<lambda>_. None)\<rparr>"

definition model_with_id :: "tfstring \<Rightarrow> Model" where
  "model_with_id i = \<lparr>ID = i, Fields = fmempty\<rparr>"

definition request_of :: "Model \<Rightarrow> Model \<Rightarrow> Request" where
  "request_of plan state =
     \<lparr>req_Config = \<lparr>Raw = plan, GetDiags = []\<rparr>,
      req_Plan = \<lparr>Raw = plan, GetDiags = []\<rparr>,
      req_State = \<lparr>Raw = state, GetDiags = []\<rparr>\<rparr>"

definition response_of :: "Model option \<Rightarrow> Response" where
  "response_of st = \<lparr>resp_Diagnostics = [], resp_State = st\<rparr>"

definition object_request :: "tfbool \<Rightarrow> tfobject \<Rightarrow> tfobject \<Rightarrow> ObjectRequest" where
  "object_request isPrivate accessControl prior =
     \<lparr>oreq_Plan = \<lparr>is_private = isPrivate, access_control = accessControl\<rparr>,
      oreq_ConfigValue = accessControl,
      oreq_PlanValue = accessControl,
      oreq_StateValue = prior\<rparr>"

definition object_response :: "tfobject \<Rightarrow> ObjectResponse" where
  "object_response planValue = \<lparr>oresp_PlanValue = planValue, oresp_Diagnostics = []\<rparr>"

definition emptyPermissions :: tfobject where
  "emptyPermissions =
     ObjectKnown permissionTypes
       (fmap_of_list [(''group_ids'', ListV (ListKnown StringType [])),
                      (''user_ids'', ListV (ListKnown StringType []))])"

definition defaultAccessControl :: tfobject where
  "defaultAccessControl =
     ObjectKnown attributeTypes
       (fmap_of_list [(''read'', ObjectV emptyPermissions), (''write'', ObjectV emptyPermissions)])"

section \<open>Facts about diagnostics and the constructors\<close>

lemma set_Append: "set (Append diags ds) = set diags \<union> set ds"
  by (induction ds arbitrary: diags) auto

lemma set_AddError:
  "set (AddError diags summary detail) = insert (ErrorDiagnostic summary detail) (set diags)"
  unfolding AddError_def set_Append by simp

lemma set_AddAttributeError:
  "set (AddAttributeError diags p summary detail) =
     insert (AttributeErrorDiagnostic p summary detail) (set diags)"
  unfolding AddAttributeError_def set_Append by simp

lemma HasError_AddError: "HasError (AddError diags summary detail)"
  unfolding HasError_def list_ex_iff set_AddError by simp

lemma HasError_AddAttributeError: "HasError (AddAttributeError diags p summary detail)"
  unfolding HasError_def list_ex_iff set_AddAttributeError by simp

lemma HasError_Nil: "\<not> HasError []"
  by (simp add: HasError_def)

lemma ObjectValue_diags_Nil:
  assumes "fmdom attrs = fmdom tys"
    and "\<And>name t. fmlookup tys name = Some t \<Longrightarrow> map_option Type (fmlookup attrs name) = Some t"
  shows "ObjectValue_diags tys attrs = []"
proof -
  have a: "\<And>name. name |\<in>| fmdom tys \<Longrightarrow>
     (case fmlookup attrs name of
          None \<Rightarrow> [ErrorDiagnostic ''Missing Object Attribute Value'' name]
        | Some attribute \<Rightarrow>
            if fmlookup tys name = Some (Type attribute) then []
            else [ErrorDiagnostic ''Invalid Object Attribute Type'' name]) = []"
  proof -
    fix name assume "name |\<in>| fmdom tys"
    then obtain t where t: "fmlookup tys name = Some t"
      by (meson fmdomE)
    from assms(2)[OF t] obtain v where "fmlookup attrs name = Some v" "Type v = t"
      by auto
    with t show "(case fmlookup attrs name of
          None \<Rightarrow> [ErrorDiagnostic ''Missing Object Attribute Value'' name]
        | Some attribute \<Rightarrow>
            if fmlookup tys name = Some (Type attribute) then []
            else [ErrorDiagnostic ''Invalid Object Attribute Type'' name]) = []"
      by simp
  qed
  show ?thesis
    unfolding ObjectValue_diags_def using a assms(1) by simp
qed

lemma ObjectValue_well_typed:
  assumes "fmdom attrs = fmdom tys"
    and "\<And>name t. fmlookup tys name = Some t \<Longrightarrow> map_option Type (fmlookup attrs name) = Some t"
  shows "ObjectValue tys attrs = (ObjectKnown tys attrs, [])"
  by (simp add: ObjectValue_def ObjectValue_diags_Nil[OF assms] HasError_Nil)

lemma emptyPermissions_value:
  "ObjectValue permissionTypes
     (fmap_of_list [(''group_ids'', ListV (ListKnown StringType [])),
                    (''user_ids'', ListV (ListKnown StringType []))])
   = (emptyPermissions, [])"
  unfolding emptyPermissions_def
  by (rule ObjectValue_well_typed) (auto simp: permissionTypes_def split: if_splits)

lemma defaultAccessControl_value:
  "ObjectValue attributeTypes
     (fmap_of_list [(''read'', ObjectV emptyPermissions), (''write'', ObjectV emptyPermissions)])
   = (defaultAccessControl, [])"
  unfolding defaultAccessControl_def
  by (rule ObjectValue_well_typed) (auto simp: attributeTypes_def emptyPermissions_def split: if_splits)


lemma Diagnostics_Append_Nil: "Diagnostics_Append resp [] = resp"
  by (simp add: Diagnostics_Append_def)

section \<open>Identity across Read and Update\<close>




text \<open>
  Claim C2. Update dispatches at most one call to the store. When the plan and the
  prior state convert without error, that call is the update whose identity argument is
  the string of the stored \<open>ID\<close> and whose model is the plan with its \<open>ID\<close>
  overwritten by the stored \<open>ID\<close>, whatever \<open>ID\<close> the plan held; otherwise no
  call is dispatched. The response and the calls of Update do not depend on the
  \<open>ID\<close> of the plan: a plan that differs in its \<open>ID\<close> alone gives the same
  result.
\<close>

theorem C2_update_sends_stored_identity:
  "snd (ModelResource_Update client req resp) =
     (if HasError (resp_Diagnostics (Diagnostics_Append resp (GetDiags (req_Plan req)))) \<or>
         HasError (resp_Diagnostics (Diagnostics_Append
                 (Diagnostics_Append resp (GetDiags (req_Plan req))) (GetDiags (req_State req))))
      then []
      else [UpdateModelCall (ValueString (ID (Raw (req_State req))))
              ((Raw (req_Plan req))\<lparr>ID := ID (Raw (req_State req))\<rparr>)])
   \<and> ModelResource_Update client
         (req\<lparr>req_Plan := (req_Plan req)\<lparr>Raw := (Raw (req_Plan req))\<lparr>ID := i\<rparr>\<rparr>\<rparr>) resp
       = ModelResource_Update client req resp"
  by (simp add: ModelResource_Update_def Get_def Let_def State_Set_def
      split: prod.splits option.splits)

theorem C2_witness:
  "snd (ModelResource_Update
          (store_replies (None, None) (None, None) (Some (model_with_id (StringValue ''m-1'')), None))
          (request_of (model_with_id (StringValue ''other'')) (model_with_id (StringValue ''m-1'')))
          (response_of (Some (model_with_id (StringValue ''m-1'')))))
     = [UpdateModelCall ''m-1'' (model_with_id (StringValue ''m-1''))]"
  using C2_update_sends_stored_identity
    [of "store_replies (None, None) (None, None) (Some (model_with_id (StringValue ''m-1'')), None)"
        "request_of (model_with_id (StringValue ''other'')) (model_with_id (StringValue ''m-1''))"
        "response_of (Some (model_with_id (StringValue ''m-1'')))"
        "StringValue ''other''"]
  by (simp add: model_with_id_def request_of_def response_of_def Diagnostics_Append_def HasError_def)

section \<open>Create\<close>






section \<open>The resolution of \<open>access_control\<close>\<close>

text \<open>
  Claim C3. When \<open>is_private\<close> is \<open>false\<close> and \<open>access_control\<close> is neither null
  nor unknown, the modifier returns with error diagnostics, one at the path
  \<open>is_private\<close> and one at the path \<open>access_control\<close>; it leaves the planned value
  as it was, and it dispatches no call to the store.
\<close>

theorem C3_conflict_is_rejected:
  assumes "is_private (oreq_Plan req) = BoolValue False"
    and "\<not> Object_IsNull (access_control (oreq_Plan req))"
    and "\<not> Object_IsUnknown (access_control (oreq_Plan req))"
  shows "HasError (oresp_Diagnostics (fst (PlanModifyObject req resp)))
       \<and> AttributeErrorDiagnostic (Root ''is_private'') ''Invalid Value''
            ''is_private must be true when access_control is specified.''
           \<in> set (oresp_Diagnostics (fst (PlanModifyObject req resp)))
       \<and> AttributeErrorDiagnostic (Root ''access_control'') ''Invalid Value''
            ''access_control cannot be specified when is_private is false.''
           \<in> set (oresp_Diagnostics (fst (PlanModifyObject req resp)))
       \<and> oresp_PlanValue (fst (PlanModifyObject req resp)) = oresp_PlanValue resp
       \<and> snd (PlanModifyObject req resp) = []"
  using assms
  by (simp add: PlanModifyObject_def Let_def set_AddAttributeError HasError_AddAttributeError)

theorem C3_witness:
  "HasError (oresp_Diagnostics (fst (PlanModifyObject
       (object_request (BoolValue False) defaultAccessControl (ObjectNull attributeTypes))
       (object_response defaultAccessControl))))
   \<and> oresp_Diagnostics (fst (PlanModifyObject
       (object_request (BoolValue False) defaultAccessControl (ObjectNull attributeTypes))
       (object_response defaultAccessControl)))
     = [AttributeErrorDiagnostic (Root ''is_private'') ''Invalid Value''
          ''is_private must be true when access_control is specified.'',
        AttributeErrorDiagnostic (Root ''access_control'') ''Invalid Value''
          ''access_control cannot be specified when is_private is false.'']
   \<and> snd (PlanModifyObject
       (object_request (BoolValue False) defaultAccessControl (ObjectNull attributeTypes))
       (object_response defaultAccessControl)) = []"
proof -
  have d: "oresp_Diagnostics (fst (PlanModifyObject
       (object_request (BoolValue False) defaultAccessControl (ObjectNull attributeTypes))
       (object_response defaultAccessControl)))
     = [AttributeErrorDiagnostic (Root ''is_private'') ''Invalid Value''
          ''is_private must be true when access_control is specified.'',
        AttributeErrorDiagnostic (Root ''access_control'') ''Invalid Value''
          ''access_control cannot be specified when is_private is false.'']"
    by (simp add: PlanModifyObject_def Let_def object_request_def object_response_def
        defaultAccessControl_def AddAttributeError_def)
  show ?thesis
    using d C3_conflict_is_rejected
      [of "object_request (BoolValue False) defaultAccessControl (ObjectNull attributeTypes)"
          "object_response defaultAccessControl"]
    by (simp add: object_request_def defaultAccessControl_def)
qed

text \<open>
  Claim C4. When \<open>is_private\<close> is \<open>true\<close> and \<open>access_control\<close> is null or
  unknown, the planned value becomes the known object with the attributes \<open>read\<close>
  and \<open>write\<close>, each a known object whose \<open>group_ids\<close> and \<open>user_ids\<close> are the
  known empty list of strings; the diagnostics stay as they were.
\<close>

theorem C4_private_unset_gets_default:
  assumes "is_private (oreq_Plan req) = BoolValue True"
    and "Object_IsNull (access_control (oreq_Plan req)) \<or> Object_IsUnknown (access_control (oreq_Plan req))"
  shows "fst (PlanModifyObject req resp) =
           resp\<lparr>oresp_PlanValue := defaultAccessControl\<rparr>
         \<and> defaultAccessControl =
             ObjectKnown attributeTypes (fmap_of_list
               [(''read'', ObjectV (ObjectKnown permissionTypes (fmap_of_list
                   [(''group_ids'', ListV (ListKnown StringType [])),
                    (''user_ids'', ListV (ListKnown StringType []))]))),
                (''write'', ObjectV (ObjectKnown permissionTypes (fmap_of_list
                   [(''group_ids'', ListV (ListKnown StringType [])),
                    (''user_ids'', ListV (ListKnown StringType []))])))])"
proof -
  have "fst (PlanModifyObject req resp) = resp\<lparr>oresp_PlanValue := defaultAccessControl\<rparr>"
    using assms
    by (auto simp: PlanModifyObject_def Let_def ListValueFrom_StringType_def
        emptyPermissions_value defaultAccessControl_value simp del: fmap_of_list_simps)
  moreover have "defaultAccessControl =
             ObjectKnown attributeTypes (fmap_of_list
               [(''read'', ObjectV (ObjectKnown permissionTypes (fmap_of_list
                   [(''group_ids'', ListV (ListKnown StringType [])),
                    (''user_ids'', ListV (ListKnown StringType []))]))),
                (''write'', ObjectV (ObjectKnown permissionTypes (fmap_of_list
                   [(''group_ids'', ListV (ListKnown StringType [])),
                    (''user_ids'', ListV (ListKnown StringType []))])))])"
    by (simp add: defaultAccessControl_def emptyPermissions_def)
  ultimately show ?thesis by blast
qed

theorem C4_witness:
  "fst (PlanModifyObject (object_request (BoolValue True) (ObjectUnknown attributeTypes)
          (ObjectNull attributeTypes)) (object_response (ObjectUnknown attributeTypes)))
     = object_response defaultAccessControl"
  using C4_private_unset_gets_default
    [of "object_request (BoolValue True) (ObjectUnknown attributeTypes) (ObjectNull attributeTypes)"
        "object_response (ObjectUnknown attributeTypes)"]
  by (simp add: object_request_def object_response_def del: fmap_of_list_simps)

text \<open>
  Claim C5. When \<open>is_private\<close> is \<open>false\<close> and \<open>access_control\<close> is null or
  unknown, the planned value becomes the null object, whatever the prior state, the
  configuration and the planned value of the request and of the response were; the
  diagnostics stay as they were.
\<close>

theorem C5_public_unset_forced_null:
  assumes "is_private (oreq_Plan req) = BoolValue False"
    and "Object_IsNull (access_control (oreq_Plan req)) \<or> Object_IsUnknown (access_control (oreq_Plan req))"
  shows "fst (PlanModifyObject req resp) = resp\<lparr>oresp_PlanValue := ObjectNull attributeTypes\<rparr>"
  using assms by (auto simp: PlanModifyObject_def Let_def)

theorem C5_witness:
  "fst (PlanModifyObject (object_request (BoolValue False) (ObjectUnknown attributeTypes)
          defaultAccessControl) (object_response (ObjectUnknown attributeTypes)))
     = object_response (ObjectNull attributeTypes)"
  using C5_public_unset_forced_null
    [of "object_request (BoolValue False) (ObjectUnknown attributeTypes) defaultAccessControl"
        "object_response (ObjectUnknown attributeTypes)"]
  by (simp add: object_request_def object_response_def)

text \<open>
  Claim C9. A null or unknown \<open>is_private\<close> is resolved exactly as \<open>false\<close>: the
  modifier returns the same response and the same calls. With \<open>access_control\<close>
  neither null nor unknown it adds the two attribute errors; otherwise it sets the
  planned value to the null object.
\<close>

theorem C9_unset_privacy_is_public:
  assumes "Bool_IsNull b \<or> Bool_IsUnknown b"
  shows "PlanModifyObject (req\<lparr>oreq_Plan := (oreq_Plan req)\<lparr>is_private := b\<rparr>\<rparr>) resp
           = PlanModifyObject (req\<lparr>oreq_Plan := (oreq_Plan req)\<lparr>is_private := BoolValue False\<rparr>\<rparr>) resp
       \<and> fst (PlanModifyObject (req\<lparr>oreq_Plan := (oreq_Plan req)\<lparr>is_private := b\<rparr>\<rparr>) resp)
           = (if Object_IsNull (access_control (oreq_Plan req)) \<or>
                 Object_IsUnknown (access_control (oreq_Plan req))
              then resp\<lparr>oresp_PlanValue := ObjectNull attributeTypes\<rparr>
              else resp\<lparr>oresp_Diagnostics :=
                     AddAttributeError
                       (AddAttributeError (oresp_Diagnostics resp) (Root ''is_private'')
                          ''Invalid Value'' ''is_private must be true when access_control is specified.'')
                       (Root ''access_control'')
                       ''Invalid Value'' ''access_control cannot be specified when is_private is false.''\<rparr>)"
  using assms by (cases b) (simp_all add: PlanModifyObject_def Let_def)

theorem C9_witness:
  "fst (PlanModifyObject (object_request BoolNull defaultAccessControl (ObjectNull attributeTypes))
       (object_response defaultAccessControl))
     = \<lparr>oresp_PlanValue = defaultAccessControl,
        oresp_Diagnostics =
          [AttributeErrorDiagnostic (Root ''is_private'') ''Invalid Value''
             ''is_private must be true when access_control is specified.'',
           AttributeErrorDiagnostic (Root ''access_control'') ''Invalid Value''
             ''access_control cannot be specified when is_private is false.'']\<rparr>
   \<and> fst (PlanModifyObject (object_request BoolUnknown (ObjectUnknown attributeTypes) defaultAccessControl)
       (object_response (ObjectUnknown attributeTypes)))
     = object_response (ObjectNull attributeTypes)"
proof -
  have n: "Bool_IsNull BoolNull \<or> Bool_IsUnknown BoolNull"
    and u: "Bool_IsNull BoolUnknown \<or> Bool_IsUnknown BoolUnknown"
    by simp_all
  note present = C9_unset_privacy_is_public
      [OF n, of "object_request BoolNull defaultAccessControl (ObjectNull attributeTypes)"
          "object_response defaultAccessControl", THEN conjunct2]
  note unset = C9_unset_privacy_is_public
      [OF u, of "object_request BoolUnknown (ObjectUnknown attributeTypes) defaultAccessControl"
          "object_response (ObjectUnknown attributeTypes)", THEN conjunct2]
  show ?thesis
    using present unset
    by (simp add: object_request_def object_response_def defaultAccessControl_def
        AddAttributeError_def)
qed

section \<open>The enumerations\<close>



section \<open>The data source sets the state before it tests for nil\<close>

text \<open>
  Claim C10. When the configuration converts without error and the get operation of
  the store answers with the nil pointer and the nil error, the Read of the data
  source sets the state to null first and then adds the error "No model found with
  name: ..." to the diagnostics: the response carries an error and a state that the
  call has overwritten.
\<close>

theorem C10_nil_model_is_set_before_the_error:
  assumes "\<not> HasError (resp_Diagnostics (Diagnostics_Append resp (GetDiags (req_Config req))))"
    and "GetModel client (ValueString (ID (Raw (req_Config req)))) = (None, None)"
  shows "fst (ModelDataSource_Read client req resp) =
           Returns (Diagnostics_AddError
                      ((Diagnostics_Append resp (GetDiags (req_Config req)))\<lparr>resp_State := None\<rparr>)
                      ''Error reading model''
                      (''No model found with name: '' @ ValueString (ID (Raw (req_Config req)))))
       \<and> resp_State (Diagnostics_AddError
                      ((Diagnostics_Append resp (GetDiags (req_Config req)))\<lparr>resp_State := None\<rparr>)
                      ''Error reading model''
                      (''No model found with name: '' @ ValueString (ID (Raw (req_Config req)))))
           = None
       \<and> HasError (resp_Diagnostics (Diagnostics_AddError
                      ((Diagnostics_Append resp (GetDiags (req_Config req)))\<lparr>resp_State := None\<rparr>)
                      ''Error reading model''
                      (''No model found with name: '' @ ValueString (ID (Raw (req_Config req))))))"
  using assms
  by (simp add: ModelDataSource_Read_def Get_def Let_def State_Set_def Diagnostics_Append_Nil
      Diagnostics_AddError_def HasError_AddError)

theorem C10_witness:
  "fst (ModelDataSource_Read
          (store_replies (None, None) (None, None) (None, None))
          (request_of (model_with_id (StringValue ''m-1'')) (model_with_id StringNull))
          (response_of (Some (model_with_id (StringValue ''m-0'')))))
     = Returns \<lparr>resp_Diagnostics =
                   [ErrorDiagnostic ''Error reading model'' ''No model found with name: m-1''],
                 resp_State = None\<rparr>"
  using C10_nil_model_is_set_before_the_error
    [of "response_of (Some (model_with_id (StringValue ''m-0'')))"
        "request_of (model_with_id (StringValue ''m-1'')) (model_with_id StringNull)"
        "store_replies (None, None) (None, None) (None, None)"]
  by (simp add: store_replies_def model_with_id_def request_of_def response_of_def
      Diagnostics_Append_def Diagnostics_AddError_def AddError_def HasError_def)

end
